theory Spec2Isabelle
  imports Complex_Main "HOL-Library.AList"
begin

section \<open>The module\<close>

text \<open>
  The repository holds two revisions of one TypeScript module: src/lib/internal/types.ts
  and a second file, part_000. Each declares the valibot schemas of a quiz (questions,
  conditions, transitions, nodes) and the functions \<open>validateQuiz\<close>,
  \<open>evaluateTransition\<close> and \<open>createResponse\<close>. This theory embeds \<open>validateQuiz\<close>
  and \<open>evaluateTransition\<close> of both revisions; a definition that differs between them
  is given twice, with the suffix \<open>_types\<close> or \<open>_part0\<close>.

  The revision of types.ts builds \<open>QuizStateSchema\<close> from a \<open>QuestionResponseSchema\<close>
  that it does not declare. Neither function reads \<open>QuizStateSchema\<close>; both are
  embedded as they are written.
\<close>

section \<open>JavaScript values\<close>

text \<open>
  The module is TypeScript; at run time its functions see JavaScript values. A number is
  an IEEE double: a finite value, one of the two infinities, or NaN. The operations the
  module applies to numbers are \<open><\<close>, \<open>>\<close> and \<open>===\<close> only, and these are exact on
  doubles, so a finite double is represented by the real number it denotes (the two zeros,
  which \<open><\<close>, \<open>>\<close> and \<open>===\<close> do not tell apart, are both \<open>Fin 0\<close>).
\<close>

datatype jsnum = NaN | NegInf | Fin real | PosInf

text \<open>
  Dates, arrays, files and plain objects are heap objects: \<open>===\<close> compares their
  identity, not their contents. Each carries its address. The module never writes to an
  object, so the contents are carried next to the address instead of in a separate heap.
  A date holds its time value (milliseconds, or NaN for an invalid date); an object holds
  its own properties in order, the first binding of a key being the one a read finds.
\<close>

type_synonym addr = nat

datatype jsval =
    VUndefined
  | VNull
  | VBool bool
  | VNum jsnum
  | VStr string
  | VDate addr jsnum
  | VFile addr
  | VArr addr "jsval list"
  | VObj addr "(string \<times> jsval) list"
  | VHooked addr

text \<open>
  An object can carry a method under the symbol \<open>nodejs.util.inspect.custom\<close>; the
  console of Node calls it when it prints the object. \<open>VHooked\<close> is an object without
  string-keyed properties whose method of that name throws. Nothing in the module reads
  a symbol-keyed property, so for the module it is an object like any other.
\<close>

text \<open>
  What can be thrown: the SyntaxError of \<open>new RegExp\<close>, the ValiError of \<open>v.parse\<close>,
  and what an inspect hook throws. A ValiError holds the issues of the parse; of an issue
  the embedding keeps the \<open>input\<close>, the value that the issue is about.
\<close>

datatype js_error = SyntaxError | ValiError "jsval list" | HookError

text \<open>
  Built-ins of the JavaScript host that the module calls and does not define: the parse of
  a string as a number (\<open>Number(s)\<close>), the printing of a number and of a date,
  \<open>new RegExp(p).test(s)\<close>, which throws a SyntaxError when \<open>p\<close> is not a pattern,
  and \<open>console.error(message, error)\<close>, which returns or throws while it prints its
  arguments. They are parameters: a theorem that speaks of a host \<open>h\<close> holds for every
  host.
\<close>

record host =
  StringToNumber :: "string \<Rightarrow> jsnum"
  NumberToString :: "jsnum \<Rightarrow> string"
  DateToString :: "jsnum \<Rightarrow> string"
  RegExpTest :: "string \<Rightarrow> string \<Rightarrow> js_error + bool"
  ConsoleError :: "string \<Rightarrow> js_error \<Rightarrow> js_error + unit"

subsection \<open>Comparison and equality\<close>

text \<open>\<open>a < b\<close> on numbers: false as soon as one side is NaN.\<close>

fun js_less :: "jsnum \<Rightarrow> jsnum \<Rightarrow> bool" where
  "js_less NaN _ = False"
| "js_less _ NaN = False"
| "js_less (Fin x) (Fin y) = (x < y)"
| "js_less NegInf NegInf = False"
| "js_less NegInf _ = True"
| "js_less _ NegInf = False"
| "js_less PosInf _ = False"
| "js_less (Fin x) PosInf = True"

text \<open>\<open>a > b\<close> is \<open>b < a\<close>.\<close>

definition js_greater :: "jsnum \<Rightarrow> jsnum \<Rightarrow> bool" where
  "js_greater a b = js_less b a"

text \<open>\<open>a === b\<close> on numbers: NaN is not equal to itself.\<close>

definition num_equals :: "jsnum \<Rightarrow> jsnum \<Rightarrow> bool" where
  "num_equals a b = (a \<noteq> NaN \<and> b \<noteq> NaN \<and> a = b)"

text \<open>\<open>a === b\<close>: by value on primitives, by identity on objects.\<close>

fun strict_equals :: "jsval \<Rightarrow> jsval \<Rightarrow> bool" where
  "strict_equals VUndefined VUndefined = True"
| "strict_equals VNull VNull = True"
| "strict_equals (VBool a) (VBool b) = (a = b)"
| "strict_equals (VNum a) (VNum b) = num_equals a b"
| "strict_equals (VStr a) (VStr b) = (a = b)"
| "strict_equals (VDate a _) (VDate b _) = (a = b)"
| "strict_equals (VFile a) (VFile b) = (a = b)"
| "strict_equals (VArr a _) (VArr b _) = (a = b)"
| "strict_equals (VObj a _) (VObj b _) = (a = b)"
| "strict_equals (VHooked a) (VHooked b) = (a = b)"
| "strict_equals _ _ = False"

text \<open>SameValueZero, the equality of \<open>Array.prototype.includes\<close>: as \<open>===\<close>, but NaN is
  equal to NaN.\<close>

fun same_value_zero :: "jsval \<Rightarrow> jsval \<Rightarrow> bool" where
  "same_value_zero (VNum a) (VNum b) = (a = b)"
| "same_value_zero a b = strict_equals a b"

subsection \<open>Type tests\<close>

definition is_number :: "jsval \<Rightarrow> bool" where
  "is_number v = (case v of VNum _ \<Rightarrow> True | _ \<Rightarrow> False)"

definition is_string :: "jsval \<Rightarrow> bool" where
  "is_string v = (case v of VStr _ \<Rightarrow> True | _ \<Rightarrow> False)"

definition is_Date :: "jsval \<Rightarrow> bool" where
  "is_Date v = (case v of VDate _ _ \<Rightarrow> True | _ \<Rightarrow> False)"

definition is_nullish :: "jsval \<Rightarrow> bool" where
  "is_nullish v = (case v of VUndefined \<Rightarrow> True | VNull \<Rightarrow> True | _ \<Rightarrow> False)"

subsection \<open>Conversions\<close>

fun join_comma :: "string list \<Rightarrow> string" where
  "join_comma [] = []"
| "join_comma [s] = s"
| "join_comma (s # t # ss) = s @ '','' @ join_comma (t # ss)"

text \<open>ToString. An array prints its elements joined by commas, with undefined and null
  elements printed as the empty string.\<close>

fun ToString :: "host \<Rightarrow> jsval \<Rightarrow> string" where
  "ToString h VUndefined = ''undefined''"
| "ToString h VNull = ''null''"
| "ToString h (VBool b) = (if b then ''true'' else ''false'')"
| "ToString h (VNum n) = NumberToString h n"
| "ToString h (VStr s) = s"
| "ToString h (VDate a t) = DateToString h t"
| "ToString h (VFile a) = ''[object File]''"
| "ToString h (VArr a xs) =
     join_comma (map (\<lambda>x. if is_nullish x then [] else ToString h x) xs)"
| "ToString h (VObj a kvs) = ''[object Object]''"
| "ToString h (VHooked a) = ''[object Object]''"

text \<open>The source text of \<open>new RegExp(v)\<close>: empty for undefined, else the string of
  \<open>v\<close>.\<close>

definition RegExp_source :: "host \<Rightarrow> jsval \<Rightarrow> string" where
  "RegExp_source h v = (if v = VUndefined then [] else ToString h v)"

text \<open>ToNumber, which is what \<open>Number(v)\<close> and a relational operator with a number on the
  other side apply. A date gives its time value; any other object goes through its
  string.\<close>

fun ToNumber :: "host \<Rightarrow> jsval \<Rightarrow> jsnum" where
  "ToNumber h VUndefined = NaN"
| "ToNumber h VNull = Fin 0"
| "ToNumber h (VBool b) = (if b then Fin 1 else Fin 0)"
| "ToNumber h (VNum n) = n"
| "ToNumber h (VStr s) = StringToNumber h s"
| "ToNumber h (VDate a t) = t"
| "ToNumber h v = StringToNumber h (ToString h v)"

section \<open>The data model read by \<open>evaluateTransition\<close>\<close>

datatype ConditionOperatorEnum =
    EQUALS | NOT_EQUALS | CONTAINS | NOT_CONTAINS
  | GREATER_THAN | LESS_THAN | BETWEEN | MATCHES

datatype CombinationTypeEnum = AND | OR

text \<open>
  A condition as the input type of \<open>ConditionSchema\<close> has it. The field \<open>value\<close> of the
  source is \<open>cond_value\<close> here; an absent \<open>additionalValue\<close> reads as \<open>VUndefined\<close>.
\<close>

record Condition =
  questionId :: string
  operator :: ConditionOperatorEnum
  cond_value :: jsval
  additionalValue :: jsval

text \<open>A transition; \<open>combinationType\<close> is optional in the input type.\<close>

record Transition =
  conditions :: "Condition list"
  nextNodeId :: string
  combinationType :: "CombinationTypeEnum option"

text \<open>
  A recorded answer (fields \<open>questionId\<close> and \<open>value\<close> of the source are
  \<open>resp_questionId\<close> and \<open>resp_value\<close>; \<open>timestamp\<close> is the time value of the date).
\<close>

record QuestionResponse =
  resp_questionId :: string
  resp_value :: jsval
  timestamp :: jsnum
  isValid :: bool
  validationErrors :: "string list option"

text \<open>\<open>Record<string, QuestionResponse>\<close>: the own properties of the responses object.\<close>

type_synonym responses = "string \<rightharpoonup> QuestionResponse"

text \<open>
  The responses object is an ordinary object, as an object literal, a spread or the
  output of a record schema is. A read \<open>responses[key]\<close> finds the own property,
  or else what the object inherits from \<open>Object.prototype\<close>, or else undefined. The
  members of \<open>Object.prototype\<close> are functions (and, under \<open>__proto__\<close>, the
  prototype itself): truthy values that have no property \<open>value\<close>.
\<close>

definition ObjectPrototype_keys :: "string list" where
  "ObjectPrototype_keys =
     [''constructor'', ''__defineGetter__'', ''__defineSetter__'', ''hasOwnProperty'',
      ''__lookupGetter__'', ''__lookupSetter__'', ''isPrototypeOf'',
      ''propertyIsEnumerable'', ''toString'', ''valueOf'', ''__proto__'',
      ''toLocaleString'']"

text \<open>
  \<open>response_value rs key\<close> is \<open>None\<close> when \<open>responses[key]\<close> is undefined, and
  otherwise the \<open>value\<close> property of what the read finds.
\<close>

definition response_value :: "responses \<Rightarrow> string \<Rightarrow> jsval option" where
  "response_value rs key =
     (case rs key of
        Some response \<Rightarrow> Some (resp_value response)
      | None \<Rightarrow> if List.member ObjectPrototype_keys key then Some VUndefined else None)"

text \<open>
  The responses object is mutable and comes to \<open>evaluateTransition\<close> by reference. The
  embedding threads it through the call: a step takes the responses object as it is and
  gives back, next to its result, the responses object as it leaves it. A read leaves it
  as it is.
\<close>

definition read_response_value :: "string \<Rightarrow> responses \<Rightarrow> jsval option \<times> responses" where
  "read_response_value key rs = (response_value rs key, rs)"

section \<open>Array iteration\<close>

text \<open>
  \<open>Array.prototype.every\<close> and \<open>some\<close> call the callback from left to right and stop
  at the first element that decides the result; an exception thrown by the callback
  leaves the loop. Each call of the callback starts in the state that the call before it
  has left.
\<close>

fun array_every ::
  "('a \<Rightarrow> 's \<Rightarrow> (js_error + bool) \<times> 's) \<Rightarrow> 'a list \<Rightarrow> 's \<Rightarrow> (js_error + bool) \<times> 's"
where
  "array_every f [] s = (Inr True, s)"
| "array_every f (x # xs) s =
     (case f x s of
        (Inl e, s1) \<Rightarrow> (Inl e, s1)
      | (Inr b, s1) \<Rightarrow> if b then array_every f xs s1 else (Inr False, s1))"

fun array_some ::
  "('a \<Rightarrow> 's \<Rightarrow> (js_error + bool) \<times> 's) \<Rightarrow> 'a list \<Rightarrow> 's \<Rightarrow> (js_error + bool) \<times> 's"
where
  "array_some f [] s = (Inr False, s)"
| "array_some f (x # xs) s =
     (case f x s of
        (Inl e, s1) \<Rightarrow> (Inl e, s1)
      | (Inr b, s1) \<Rightarrow> if b then (Inr True, s1) else array_some f xs s1)"

section \<open>\<open>evaluateTransition\<close>, revision of src/lib/internal/types.ts\<close>

text \<open>\<open>xs.includes(v)\<close>\<close>

definition array_includes :: "jsval list \<Rightarrow> jsval \<Rightarrow> bool" where
  "array_includes xs v = list_ex (\<lambda>x. same_value_zero x v) xs"

text \<open>
  The inner function \<open>evaluateCondition\<close>, closed over \<open>responses\<close>. In this revision
  the ordering operators answer false unless the response value has type number; the
  other operand is then converted to a number by the relational operator.
\<close>

definition run_evaluateCondition_types ::
  "host \<Rightarrow> Condition \<Rightarrow> responses \<Rightarrow> (js_error + bool) \<times> responses" where
  "run_evaluateCondition_types h condition rs =
     (case read_response_value (questionId condition) rs of
        (None, rs1) \<Rightarrow> (Inr False, rs1)
      | (Some value, rs1) \<Rightarrow>
          (case operator condition of
             EQUALS \<Rightarrow> Inr (strict_equals value (cond_value condition))
           | NOT_EQUALS \<Rightarrow> Inr (\<not> strict_equals value (cond_value condition))
           | CONTAINS \<Rightarrow>
               (case value of
                  VArr a xs \<Rightarrow> Inr (array_includes xs (cond_value condition))
                | _ \<Rightarrow> Inr False)
           | NOT_CONTAINS \<Rightarrow>
               (case value of
                  VArr a xs \<Rightarrow> Inr (\<not> array_includes xs (cond_value condition))
                | _ \<Rightarrow> Inr False)
           | GREATER_THAN \<Rightarrow>
               (case value of
                  VNum r \<Rightarrow> Inr (js_greater r (ToNumber h (cond_value condition)))
                | _ \<Rightarrow> Inr False)
           | LESS_THAN \<Rightarrow>
               (case value of
                  VNum r \<Rightarrow> Inr (js_less r (ToNumber h (cond_value condition)))
                | _ \<Rightarrow> Inr False)
           | BETWEEN \<Rightarrow>
               (case value of
                  VNum r \<Rightarrow>
                    Inr (js_greater r (ToNumber h (cond_value condition)) \<and>
                         js_less r
                           (if is_nullish (additionalValue condition) then PosInf
                            else ToNumber h (additionalValue condition)))
                | _ \<Rightarrow> Inr False)
           | MATCHES \<Rightarrow>
               (case value of
                  VStr s \<Rightarrow> RegExpTest h (RegExp_source h (cond_value condition)) s
                | _ \<Rightarrow> Inr False),
           rs1))"

definition run_evaluateTransition_types ::
  "host \<Rightarrow> Transition \<Rightarrow> responses \<Rightarrow> (js_error + bool) \<times> responses" where
  "run_evaluateTransition_types h transition rs =
     (if combinationType transition = Some OR
      then array_some (run_evaluateCondition_types h) (conditions transition) rs
      else array_every (run_evaluateCondition_types h) (conditions transition) rs)"

text \<open>What the two functions return.\<close>

definition evaluateCondition_types ::
  "host \<Rightarrow> responses \<Rightarrow> Condition \<Rightarrow> js_error + bool" where
  "evaluateCondition_types h rs condition = fst (run_evaluateCondition_types h condition rs)"

definition evaluateTransition_types ::
  "host \<Rightarrow> Transition \<Rightarrow> responses \<Rightarrow> js_error + bool" where
  "evaluateTransition_types h transition rs = fst (run_evaluateTransition_types h transition rs)"

section \<open>\<open>evaluateTransition\<close>, revision of src/unnamed/part_000\<close>

text \<open>\<open>compareValues\<close>: two dates are compared by their time values, anything else by
  \<open>===\<close>.\<close>

definition compareValues :: "jsval \<Rightarrow> jsval \<Rightarrow> bool" where
  "compareValues a b =
     (case (a, b) of
        (VDate _ t, VDate _ u) \<Rightarrow> num_equals t u
      | _ \<Rightarrow> strict_equals a b)"

definition run_evaluateCondition_part0 ::
  "host \<Rightarrow> Condition \<Rightarrow> responses \<Rightarrow> (js_error + bool) \<times> responses" where
  "run_evaluateCondition_part0 h condition rs =
     (case read_response_value (questionId condition) rs of
        (None, rs1) \<Rightarrow> (Inr False, rs1)
      | (Some value, rs1) \<Rightarrow>
          (case operator condition of
             EQUALS \<Rightarrow> Inr (compareValues value (cond_value condition))
           | NOT_EQUALS \<Rightarrow> Inr (\<not> compareValues value (cond_value condition))
           | CONTAINS \<Rightarrow>
               (case value of
                  VArr a xs \<Rightarrow> Inr (list_ex (\<lambda>v. compareValues v (cond_value condition)) xs)
                | _ \<Rightarrow> Inr False)
           | NOT_CONTAINS \<Rightarrow>
               (case value of
                  VArr a xs \<Rightarrow> Inr (\<not> list_ex (\<lambda>v. compareValues v (cond_value condition)) xs)
                | _ \<Rightarrow> Inr False)
           | GREATER_THAN \<Rightarrow>
               (case (value, cond_value condition) of
                  (VDate _ t, VDate _ u) \<Rightarrow> Inr (js_greater t u)
                | _ \<Rightarrow> Inr (js_greater (ToNumber h value)
                                       (ToNumber h (cond_value condition))))
           | LESS_THAN \<Rightarrow>
               (case (value, cond_value condition) of
                  (VDate _ t, VDate _ u) \<Rightarrow> Inr (js_less t u)
                | _ \<Rightarrow> Inr (js_less (ToNumber h value)
                                    (ToNumber h (cond_value condition))))
           | BETWEEN \<Rightarrow>
               (case (cond_value condition, additionalValue condition) of
                  (VNum lo, VNum hi) \<Rightarrow>
                    Inr (js_greater (ToNumber h value) lo \<and>
                         js_less (ToNumber h value) hi)
                | (VDate _ lo, VDate _ hi) \<Rightarrow>
                    (case value of
                       VDate _ t \<Rightarrow> Inr (js_greater t lo \<and> js_less t hi)
                     | _ \<Rightarrow> Inr False)
                | _ \<Rightarrow> Inr False)
           | MATCHES \<Rightarrow>
               (case value of
                  VStr s \<Rightarrow> RegExpTest h (RegExp_source h (cond_value condition)) s
                | _ \<Rightarrow> Inr False),
           rs1))"

definition run_evaluateTransition_part0 ::
  "host \<Rightarrow> Transition \<Rightarrow> responses \<Rightarrow> (js_error + bool) \<times> responses" where
  "run_evaluateTransition_part0 h transition rs =
     (if combinationType transition = Some OR
      then array_some (run_evaluateCondition_part0 h) (conditions transition) rs
      else array_every (run_evaluateCondition_part0 h) (conditions transition) rs)"

text \<open>What the two functions return.\<close>

definition evaluateCondition_part0 ::
  "host \<Rightarrow> responses \<Rightarrow> Condition \<Rightarrow> js_error + bool" where
  "evaluateCondition_part0 h rs condition = fst (run_evaluateCondition_part0 h condition rs)"

definition evaluateTransition_part0 ::
  "host \<Rightarrow> Transition \<Rightarrow> responses \<Rightarrow> js_error + bool" where
  "evaluateTransition_part0 h transition rs = fst (run_evaluateTransition_part0 h transition rs)"

section \<open>Schemas and their parse\<close>

text \<open>
  \<open>validateQuiz\<close> hands the quiz to \<open>v.parse\<close> of the valibot library with a schema the
  module builds. The schema constructors the module uses are the datatype below; the
  second argument of \<open>v_optional\<close> is the default, when one is given.
\<close>

datatype schema =
    v_string
  | v_number
  | v_boolean
  | v_date
  | v_unknown
  | v_literal string
  | v_enum "string list"
  | v_array schema
  | v_union "schema list"
  | v_optional schema "jsval option"
  | v_object "(string \<times> schema) list"
  | v_record schema schema

text \<open>An object schema takes any input that is truthy and of type object.\<close>

definition is_object :: "jsval \<Rightarrow> bool" where
  "is_object v =
     (case v of
        VObj _ _ \<Rightarrow> True | VArr _ _ \<Rightarrow> True | VDate _ _ \<Rightarrow> True | VFile _ \<Rightarrow> True
      | VHooked _ \<Rightarrow> True | _ \<Rightarrow> False)"

text \<open>
  \<open>input[key]\<close> for the keys of the module's schemas. None of them is a property of an
  array or a date; on a file, \<open>type\<close> is, but every schema with a \<open>type\<close> entry also has
  the entries \<open>id\<close> and \<open>label\<close>, which a file lacks.
\<close>

definition get_prop :: "jsval \<Rightarrow> string \<Rightarrow> jsval" where
  "get_prop v k =
     (case v of
        VObj _ kvs \<Rightarrow> (case map_of kvs k of Some x \<Rightarrow> x | None \<Rightarrow> VUndefined)
      | _ \<Rightarrow> VUndefined)"

text \<open>The decimal digits of an array index, which is the key of the element.\<close>

definition digit_char :: "nat \<Rightarrow> char" where
  "digit_char n = ''0123456789'' ! (n mod 10)"

fun index_key :: "nat \<Rightarrow> string" where
  "index_key n =
     (if n < 10 then [digit_char n] else index_key (n div 10) @ [digit_char (n mod 10)])"

text \<open>The own enumerable properties that a record schema walks through, without the keys
  it skips.\<close>

definition own_entries :: "jsval \<Rightarrow> (string \<times> jsval) list" where
  "own_entries v =
     (case v of
        VObj _ kvs \<Rightarrow>
          filter (\<lambda>(k, x). k \<notin> {''__proto__'', ''prototype'', ''constructor''})
            (map (\<lambda>k. (k, get_prop v k)) (remdups (map fst kvs)))
      | VArr _ xs \<Rightarrow> map (\<lambda>i. (index_key i, xs ! i)) [0..<length xs]
      | _ \<Rightarrow> [])"

text \<open>
  Whether the parse of an input with a schema raises no issue. A number schema refuses
  NaN and a date schema an invalid date; an optional schema takes undefined (and then
  checks its default, if it has one) and hands any other input to the schema it wraps; an
  object schema reads each of its keys from the input and ignores the other keys.
\<close>

fun v_is :: "schema \<Rightarrow> jsval \<Rightarrow> bool" where
  "v_is v_string x = is_string x"
| "v_is v_number x = (case x of VNum n \<Rightarrow> n \<noteq> NaN | _ \<Rightarrow> False)"
| "v_is v_boolean x = (case x of VBool _ \<Rightarrow> True | _ \<Rightarrow> False)"
| "v_is v_date x = (case x of VDate _ t \<Rightarrow> t \<noteq> NaN | _ \<Rightarrow> False)"
| "v_is v_unknown x = True"
| "v_is (v_literal s) x = (x = VStr s)"
| "v_is (v_enum options) x = (case x of VStr s \<Rightarrow> List.member options s | _ \<Rightarrow> False)"
| "v_is (v_array item) x = (case x of VArr _ xs \<Rightarrow> list_all (v_is item) xs | _ \<Rightarrow> False)"
| "v_is (v_union options) x = list_ex (\<lambda>s. v_is s x) options"
| "v_is (v_optional wrapped dflt) x =
     (if x = VUndefined
      then (case dflt of
              None \<Rightarrow> True
            | Some d \<Rightarrow> if d = VUndefined then True else v_is wrapped d)
      else v_is wrapped x)"
| "v_is (v_object entries) x =
     (is_object x \<and> list_all (\<lambda>e. v_is (snd e) (get_prop x (fst e))) entries)"
| "v_is (v_record key val) x =
     (is_object x \<and>
      list_all (\<lambda>e. v_is key (VStr (fst e)) \<and> v_is val (snd e)) (own_entries x))"

text \<open>
  The inputs of the issues that the parse raises, in the order in which it raises them.
  A schema without parts raises one issue, about its input. An array, object or record
  schema raises one issue about an input of the wrong kind, and otherwise the issues of
  the parts. A union that no option takes raises one issue, about its input (the issues
  of the options go below it), unless it has a single option, whose issues it then
  passes on.
\<close>

fun v_issues :: "schema \<Rightarrow> jsval \<Rightarrow> jsval list" where
  "v_issues (v_array item) x =
     (case x of VArr _ xs \<Rightarrow> concat (map (v_issues item) xs) | _ \<Rightarrow> [x])"
| "v_issues (v_union options) x =
     (if list_ex (\<lambda>s. v_is s x) options then []
      else (case options of [s] \<Rightarrow> v_issues s x | _ \<Rightarrow> [x]))"
| "v_issues (v_optional wrapped dflt) x =
     (if x = VUndefined
      then (case dflt of
              None \<Rightarrow> []
            | Some d \<Rightarrow> if d = VUndefined then [] else v_issues wrapped d)
      else v_issues wrapped x)"
| "v_issues (v_object entries) x =
     (if is_object x
      then concat (map (\<lambda>e. v_issues (snd e) (get_prop x (fst e))) entries)
      else [x])"
| "v_issues (v_record key val) x =
     (if is_object x
      then concat (map (\<lambda>e. v_issues key (VStr (fst e)) @ v_issues val (snd e))
                       (own_entries x))
      else [x])"
| "v_issues s x = (if v_is s x then [] else [x])"

text \<open>\<open>v.parse\<close> throws a ValiError with the issues when the input raises any. The
  parsed output is not used by the module and is not modelled.\<close>

definition v_parse :: "schema \<Rightarrow> jsval \<Rightarrow> js_error + unit" where
  "v_parse s x = (if v_is s x then Inr () else Inl (ValiError (v_issues s x)))"

section \<open>The schemas of the module\<close>

text \<open>
  The two revisions build the same schemas, up to the default of \<open>min\<close> in
  \<open>RatingValidationSchema\<close> and the date alternatives of \<open>ConditionSchema\<close>. A schema
  that differs, or contains one that differs, is given once for each revision.
\<close>

definition OptionSchema :: schema where
  "OptionSchema = v_object
     [(''value'', v_union [v_string, v_number]),
      (''label'', v_string),
      (''disabled'', v_optional v_boolean None)]"

definition TextValidationSchema :: schema where
  "TextValidationSchema = v_object
     [(''minLength'', v_optional v_number None),
      (''maxLength'', v_optional v_number None),
      (''pattern'', v_optional v_string None),
      (''patternError'', v_optional v_string None)]"

definition NumberValidationSchema :: schema where
  "NumberValidationSchema = v_object
     [(''min'', v_optional v_number None),
      (''max'', v_optional v_number None),
      (''integer'', v_optional v_boolean None),
      (''step'', v_optional v_number None)]"

definition DateValidationSchema :: schema where
  "DateValidationSchema = v_object
     [(''minDate'', v_optional v_date None),
      (''maxDate'', v_optional v_date None),
      (''disallowedDates'', v_optional (v_array v_date) None)]"

definition FileValidationSchema :: schema where
  "FileValidationSchema = v_object
     [(''maxSize'', v_optional v_number None),
      (''allowedTypes'', v_optional (v_array v_string) None)]"

definition MultiSelectValidationSchema :: schema where
  "MultiSelectValidationSchema = v_object
     [(''minSelected'', v_optional v_number None),
      (''maxSelected'', v_optional v_number None)]"

definition CheckboxGroupValidationSchema :: schema where
  "CheckboxGroupValidationSchema = v_object
     [(''minSelected'', v_optional v_number None),
      (''maxSelected'', v_optional v_number None)]"

definition RatingValidationSchema_types :: schema where
  "RatingValidationSchema_types = v_object
     [(''min'', v_optional v_number None),
      (''max'', v_optional v_number (Some (VNum (Fin 5))))]"

definition RatingValidationSchema_part0 :: schema where
  "RatingValidationSchema_part0 = v_object
     [(''min'', v_optional v_number (Some (VNum (Fin 1)))),
      (''max'', v_optional v_number (Some (VNum (Fin 5))))]"

definition SignatureValidationSchema :: schema where
  "SignatureValidationSchema = v_object
     [(''minWidth'', v_optional v_number None),
      (''maxWidth'', v_optional v_number None),
      (''required'', v_optional v_boolean None)]"

definition baseQuestionFields :: "(string \<times> schema) list" where
  "baseQuestionFields =
     [(''id'', v_string),
      (''label'', v_string),
      (''description'', v_optional v_string None),
      (''required'', v_optional v_boolean (Some (VBool False)))]"

text \<open>\<open>QuestionSchema\<close>; its argument is the \<open>RatingValidationSchema\<close> of the revision.\<close>

definition QuestionSchema :: "schema \<Rightarrow> schema" where
  "QuestionSchema rating = v_union
     [v_object (baseQuestionFields @
        [(''type'', v_literal ''text''),
         (''validation'', v_optional TextValidationSchema None),
         (''placeholder'', v_optional v_string None),
         (''defaultValue'', v_optional v_string None)]),
      v_object (baseQuestionFields @
        [(''type'', v_literal ''number''),
         (''validation'', v_optional NumberValidationSchema None),
         (''placeholder'', v_optional v_string None),
         (''defaultValue'', v_optional v_number None)]),
      v_object (baseQuestionFields @
        [(''type'', v_literal ''select''),
         (''options'', v_array OptionSchema),
         (''defaultValue'', v_optional v_string None),
         (''placeholder'', v_optional v_string None)]),
      v_object (baseQuestionFields @
        [(''type'', v_literal ''multiSelect''),
         (''options'', v_array OptionSchema),
         (''validation'', v_optional MultiSelectValidationSchema None),
         (''defaultValue'', v_optional (v_array v_string) None),
         (''placeholder'', v_optional v_string None)]),
      v_object (baseQuestionFields @
        [(''type'', v_literal ''checkbox''),
         (''defaultValue'', v_optional v_boolean None)]),
      v_object (baseQuestionFields @
        [(''type'', v_literal ''checkboxGroup''),
         (''options'', v_array OptionSchema),
         (''validation'', v_optional CheckboxGroupValidationSchema None),
         (''defaultValue'', v_optional (v_array v_string) None)]),
      v_object (baseQuestionFields @
        [(''type'', v_literal ''date''),
         (''validation'', v_optional DateValidationSchema None),
         (''defaultValue'', v_optional v_date None),
         (''placeholder'', v_optional v_string None)]),
      v_object (baseQuestionFields @
        [(''type'', v_literal ''rating''),
         (''validation'', v_optional rating None),
         (''defaultValue'', v_optional v_number None)]),
      v_object (baseQuestionFields @
        [(''type'', v_literal ''file''),
         (''validation'', v_optional FileValidationSchema None),
         (''multiple'', v_optional v_boolean (Some (VBool False)))]),
      v_object (baseQuestionFields @
        [(''type'', v_literal ''signature''),
         (''validation'', v_optional SignatureValidationSchema None)])]"

definition ConditionOperatorEnumSchema :: schema where
  "ConditionOperatorEnumSchema = v_enum
     [''equals'', ''notEquals'', ''contains'', ''notContains'',
      ''greaterThan'', ''lessThan'', ''between'', ''matches'']"

definition CombinationTypeEnumSchema :: schema where
  "CombinationTypeEnumSchema = v_enum [''AND'', ''OR'']"

definition ConditionSchema_types :: schema where
  "ConditionSchema_types = v_object
     [(''questionId'', v_string),
      (''operator'', ConditionOperatorEnumSchema),
      (''value'', v_union
         [v_string, v_number, v_boolean,
          v_array (v_union [v_string, v_number, v_boolean])]),
      (''additionalValue'', v_optional (v_union [v_string, v_number]) None)]"

definition ConditionSchema_part0 :: schema where
  "ConditionSchema_part0 = v_object
     [(''questionId'', v_string),
      (''operator'', ConditionOperatorEnumSchema),
      (''value'', v_union
         [v_string, v_number, v_boolean, v_date,
          v_array (v_union [v_string, v_number, v_boolean, v_date])]),
      (''additionalValue'', v_optional (v_union [v_string, v_number, v_date]) None)]"

text \<open>\<open>TransitionSchema\<close>, \<open>NodeSchema\<close> and \<open>QuizSchema\<close> read the same in both
  revisions; their arguments are the schemas of the revision that they contain.\<close>

definition TransitionSchema :: "schema \<Rightarrow> schema" where
  "TransitionSchema condition = v_object
     [(''conditions'', v_array condition),
      (''nextNodeId'', v_string),
      (''combinationType'', v_optional CombinationTypeEnumSchema (Some (VStr ''AND'')))]"

definition NodeSchema :: "schema \<Rightarrow> schema \<Rightarrow> schema" where
  "NodeSchema question transition = v_object
     [(''id'', v_string),
      (''title'', v_string),
      (''description'', v_optional v_string None),
      (''questions'', v_array question),
      (''transitions'', v_array transition),
      (''isStart'', v_optional v_boolean None),
      (''isEnd'', v_optional v_boolean None),
      (''metadata'', v_optional (v_record v_string v_unknown) None)]"

definition QuizSchema :: "schema \<Rightarrow> schema" where
  "QuizSchema node = v_object
     [(''id'', v_string),
      (''title'', v_string),
      (''description'', v_optional v_string None),
      (''version'', v_string),
      (''nodes'', v_array node),
      (''settings'', v_optional (v_object
         [(''allowBackTracking'', v_optional v_boolean None),
          (''showProgressBar'', v_optional v_boolean None),
          (''shuffleQuestions'', v_optional v_boolean None),
          (''theme'', v_optional v_string None),
          (''timeLimit'', v_optional v_number None)]) None),
      (''metadata'', v_optional (v_record v_string v_unknown) None)]"

definition QuizSchema_types :: schema where
  "QuizSchema_types =
     QuizSchema (NodeSchema (QuestionSchema RatingValidationSchema_types)
                            (TransitionSchema ConditionSchema_types))"

definition QuizSchema_part0 :: schema where
  "QuizSchema_part0 =
     QuizSchema (NodeSchema (QuestionSchema RatingValidationSchema_part0)
                            (TransitionSchema ConditionSchema_part0))"

section \<open>\<open>validateQuiz\<close>\<close>

text \<open>
  \<open>try { v.parse(QuizSchema, quiz); return true } catch (error) {
  console.error('Quiz validation failed:', error); return false }\<close>.
  The catch clause takes every exception of the parse. Its own call of
  \<open>console.error\<close> is outside the \<open>try\<close>: what that call throws leaves
  \<open>validateQuiz\<close>. The function is the same text in both revisions, each with its own
  \<open>QuizSchema\<close>.
\<close>

definition validateQuiz_types :: "host \<Rightarrow> jsval \<Rightarrow> js_error + bool" where
  "validateQuiz_types h quiz =
     (case v_parse QuizSchema_types quiz of
        Inr _ \<Rightarrow> Inr True
      | Inl error \<Rightarrow>
          (case ConsoleError h ''Quiz validation failed:'' error of
             Inl thrown \<Rightarrow> Inl thrown
           | Inr _ \<Rightarrow> Inr False))"

definition validateQuiz_part0 :: "host \<Rightarrow> jsval \<Rightarrow> js_error + bool" where
  "validateQuiz_part0 h quiz =
     (case v_parse QuizSchema_part0 quiz of
        Inr _ \<Rightarrow> Inr True
      | Inl error \<Rightarrow>
          (case ConsoleError h ''Quiz validation failed:'' error of
             Inl thrown \<Rightarrow> Inl thrown
           | Inr _ \<Rightarrow> Inr False))"

section \<open>Vocabulary of the properties\<close>

text \<open>\<open>v[i]\<close> on an array, and the elements of an array.\<close>

definition get_index :: "jsval \<Rightarrow> nat \<Rightarrow> jsval" where
  "get_index v i =
     (case v of VArr _ xs \<Rightarrow> if i < length xs then xs ! i else VUndefined | _ \<Rightarrow> VUndefined)"

definition elements :: "jsval \<Rightarrow> jsval list" where
  "elements v = (case v of VArr _ xs \<Rightarrow> xs | _ \<Rightarrow> [])"

text \<open>The ids of the nodes of a quiz, and \<open>quiz.nodes[i].transitions[j].nextNodeId\<close>.\<close>

definition nodeIds :: "jsval \<Rightarrow> jsval list" where
  "nodeIds quiz = map (\<lambda>n. get_prop n ''id'') (elements (get_prop quiz ''nodes''))"

definition nextNodeId_at :: "jsval \<Rightarrow> nat \<Rightarrow> nat \<Rightarrow> jsval" where
  "nextNodeId_at quiz i j =
     get_prop (get_index (get_prop (get_index (get_prop quiz ''nodes'') i) ''transitions'') j)
       ''nextNodeId''"

text \<open>The same object with an existing property changed, and the same array with an
  existing element changed.\<close>

definition upd_prop :: "string \<Rightarrow> (jsval \<Rightarrow> jsval) \<Rightarrow> jsval \<Rightarrow> jsval" where
  "upd_prop k f v =
     (case v of
        VObj a kvs \<Rightarrow>
          (case map_of kvs k of
             Some x \<Rightarrow> VObj a (AList.update k (f x) kvs)
           | None \<Rightarrow> v)
      | _ \<Rightarrow> v)"

definition upd_index :: "nat \<Rightarrow> (jsval \<Rightarrow> jsval) \<Rightarrow> jsval \<Rightarrow> jsval" where
  "upd_index i f v =
     (case v of
        VArr a xs \<Rightarrow> if i < length xs then VArr a (xs[i := f (xs ! i)]) else v
      | _ \<Rightarrow> v)"

text \<open>The same quiz with \<open>quiz.nodes[i].transitions[j].nextNodeId\<close> set to \<open>target\<close>.\<close>

definition redirect :: "nat \<Rightarrow> nat \<Rightarrow> string \<Rightarrow> jsval \<Rightarrow> jsval" where
  "redirect i j target quiz =
     upd_prop ''nodes''
       (upd_index i
          (upd_prop ''transitions''
             (upd_index j (upd_prop ''nextNodeId'' (\<lambda>_. VStr target))))) quiz"

text \<open>The contents of a value: the value with the addresses of its objects forgotten.
  Two values with the same contents are copies of each other.\<close>

fun contents :: "jsval \<Rightarrow> jsval" where
  "contents (VDate a t) = VDate 0 t"
| "contents (VFile a) = VFile 0"
| "contents (VArr a xs) = VArr 0 (map contents xs)"
| "contents (VObj a kvs) = VObj 0 (map (\<lambda>e. (fst e, contents (snd e))) kvs)"
| "contents (VHooked a) = VHooked 0"
| "contents v = v"

definition copy_of :: "QuestionResponse \<Rightarrow> QuestionResponse \<Rightarrow> bool" where
  "copy_of r r' = (r'\<lparr>resp_value := contents (resp_value r')\<rparr>
                   = r\<lparr>resp_value := contents (resp_value r)\<rparr>)"

section \<open>Example data\<close>

text \<open>A host for closed examples, with a console that returns. The examples that use it
  reach no other built-in.\<close>

definition host0 :: host where
  "host0 = \<lparr>StringToNumber = (\<lambda>_. NaN), NumberToString = (\<lambda>_. []),
            DateToString = (\<lambda>_. []), RegExpTest = (\<lambda>_ _. Inr False),
            ConsoleError = (\<lambda>_ _. Inr ())\<rparr>"

text \<open>
  The console of Node prints an error with its own properties, two levels deep: of a
  ValiError, the issues and of each issue the properties, the input among them. To
  print an object it first calls the inspect hook of the object, and what the hook throws
  leaves \<open>console.error\<close>.
\<close>

definition is_hooked :: "jsval \<Rightarrow> bool" where
  "is_hooked v = (case v of VHooked _ \<Rightarrow> True | _ \<Rightarrow> False)"

definition node_console_error :: "string \<Rightarrow> js_error \<Rightarrow> js_error + unit" where
  "node_console_error message error =
     (case error of
        ValiError inputs \<Rightarrow> if list_ex is_hooked inputs then Inl HookError else Inr ()
      | _ \<Rightarrow> Inr ())"

definition node_host :: host where
  "node_host = host0\<lparr>ConsoleError := node_console_error\<rparr>"

definition answer :: "string \<Rightarrow> jsval \<Rightarrow> QuestionResponse" where
  "answer q v =
     \<lparr>resp_questionId = q, resp_value = v, timestamp = Fin 0, isValid = True,
      validationErrors = Some []\<rparr>"

definition cond :: "string \<Rightarrow> ConditionOperatorEnum \<Rightarrow> jsval \<Rightarrow> jsval \<Rightarrow> Condition" where
  "cond q op v w = \<lparr>questionId = q, operator = op, cond_value = v, additionalValue = w\<rparr>"

text \<open>The transition of node \<open>A\<close> below, and a transition without conditions.\<close>

definition age_over_18 :: Transition where
  "age_over_18 =
     \<lparr>conditions = [cond ''age'' GREATER_THAN (VNum (Fin 18)) VUndefined],
      nextNodeId = ''B'', combinationType = None\<rparr>"

definition no_conditions :: "CombinationTypeEnum option \<Rightarrow> Transition" where
  "no_conditions ct = \<lparr>conditions = [], nextNodeId = ''C'', combinationType = ct\<rparr>"

text \<open>A transition that asks whether the answer to \<open>colours\<close> is the array at address
  1, and two answers: that array, and a copy of it at address 2.\<close>

definition same_colours :: Transition where
  "same_colours =
     \<lparr>conditions = [cond ''colours'' EQUALS (VArr 1 [VStr ''red'']) VUndefined],
      nextNodeId = ''B'', combinationType = None\<rparr>"

definition colours_shared :: QuestionResponse where
  "colours_shared = answer ''colours'' (VArr 1 [VStr ''red''])"

definition colours_copied :: QuestionResponse where
  "colours_copied = answer ''colours'' (VArr 2 [VStr ''red''])"

text \<open>
  A quiz of three nodes: \<open>A\<close> (start) asks the number question \<open>age\<close> and goes to \<open>B\<close> when
  \<open>age > 18\<close>; \<open>B\<close> has one transition without conditions, to the node given as argument;
  \<open>C\<close> is the end.
\<close>

definition quiz_to :: "string \<Rightarrow> jsval" where
  "quiz_to target = VObj 1
     [(''id'', VStr ''quiz''),
      (''title'', VStr ''Quiz''),
      (''version'', VStr ''1''),
      (''nodes'', VArr 2
         [VObj 3
            [(''id'', VStr ''A''),
             (''title'', VStr ''Age''),
             (''questions'', VArr 4
                [VObj 5
                   [(''id'', VStr ''age''), (''label'', VStr ''Age''),
                    (''type'', VStr ''number'')]]),
             (''transitions'', VArr 6
                [VObj 7
                   [(''conditions'', VArr 8
                       [VObj 9
                          [(''questionId'', VStr ''age''),
                           (''operator'', VStr ''greaterThan''),
                           (''value'', VNum (Fin 18))]]),
                    (''nextNodeId'', VStr ''B'')]]),
             (''isStart'', VBool True)],
          VObj 10
            [(''id'', VStr ''B''),
             (''title'', VStr ''Middle''),
             (''questions'', VArr 11 []),
             (''transitions'', VArr 12
                [VObj 13
                   [(''conditions'', VArr 14 []),
                    (''nextNodeId'', VStr target)]])],
          VObj 15
            [(''id'', VStr ''C''),
             (''title'', VStr ''End''),
             (''questions'', VArr 16 []),
             (''transitions'', VArr 17 []),
             (''isEnd'', VBool True)]])]"

section \<open>Auxiliary facts\<close>

lemmas evaluateCondition_defs =
  evaluateCondition_types_def run_evaluateCondition_types_def
  evaluateCondition_part0_def run_evaluateCondition_part0_def
  read_response_value_def response_value_def

lemmas evaluateTransition_defs =
  evaluateTransition_types_def run_evaluateTransition_types_def
  evaluateTransition_part0_def run_evaluateTransition_part0_def

lemma js_less_irrefl: "\<not> js_less x x"
  by (cases x) simp_all

lemma js_less_PosInf: "js_less x PosInf = (x \<noteq> NaN \<and> x \<noteq> PosInf)"
  by (cases x) simp_all

lemma js_less_not_NaN: "js_less a b \<Longrightarrow> a \<noteq> NaN \<and> b \<noteq> NaN"
  by (cases a; cases b) simp_all

lemma response_value_own:
  "rs key = Some r \<Longrightarrow> response_value rs key = Some (resp_value r)"
  by (simp add: evaluateCondition_defs)

lemma response_value_missing:
  "rs key = None \<Longrightarrow> \<not> List.member ObjectPrototype_keys key \<Longrightarrow>
   response_value rs key = None"
  by (simp add: evaluateCondition_defs)

text \<open>No step of the evaluation changes the responses object.\<close>

lemma run_evaluateCondition_types_state:
  "snd (run_evaluateCondition_types h c rs) = rs"
  by (simp add: evaluateCondition_defs split: option.split)

lemma run_evaluateCondition_part0_state:
  "snd (run_evaluateCondition_part0 h c rs) = rs"
  by (simp add: evaluateCondition_defs split: option.split)

lemma array_every_state:
  assumes "\<And>x s. snd (f x s) = s"
  shows "snd (array_every f xs s) = s"
proof (induction xs)
  case Nil
  show ?case by simp
next
  case (Cons x xs)
  obtain r where r: "f x s = (r, s)"
    using assms [of x s] by (cases "f x s") simp
  show ?case
    using Cons r by (cases r) simp_all
qed

lemma array_some_state:
  assumes "\<And>x s. snd (f x s) = s"
  shows "snd (array_some f xs s) = s"
proof (induction xs)
  case Nil
  show ?case by simp
next
  case (Cons x xs)
  obtain r where r: "f x s = (r, s)"
    using assms [of x s] by (cases "f x s") simp
  show ?case
    using Cons r by (cases r) simp_all
qed

lemma run_evaluateTransition_types_state:
  "snd (run_evaluateTransition_types h t rs) = rs"
  by (simp add: evaluateTransition_defs array_every_state array_some_state
      run_evaluateCondition_types_state)

lemma run_evaluateTransition_part0_state:
  "snd (run_evaluateTransition_part0 h t rs) = rs"
  by (simp add: evaluateTransition_defs array_every_state array_some_state
      run_evaluateCondition_part0_state)

text \<open>
  Whenever the read of the responses object finds something, NOT_EQUALS is the negation
  of EQUALS; when it finds nothing, both are false.
\<close>

lemma not_equals_negates_equals:
  "(case response_value rs (questionId c) of
      Some v \<Rightarrow>
        (\<exists>b. evaluateCondition_types h rs (c\<lparr>operator := EQUALS\<rparr>) = Inr b
           \<and> evaluateCondition_types h rs (c\<lparr>operator := NOT_EQUALS\<rparr>) = Inr (\<not> b))
      \<and> (\<exists>b. evaluateCondition_part0 h rs (c\<lparr>operator := EQUALS\<rparr>) = Inr b
           \<and> evaluateCondition_part0 h rs (c\<lparr>operator := NOT_EQUALS\<rparr>) = Inr (\<not> b))
    | None \<Rightarrow>
        evaluateCondition_types h rs (c\<lparr>operator := EQUALS\<rparr>) = Inr False
      \<and> evaluateCondition_types h rs (c\<lparr>operator := NOT_EQUALS\<rparr>) = Inr False
      \<and> evaluateCondition_part0 h rs (c\<lparr>operator := EQUALS\<rparr>) = Inr False
      \<and> evaluateCondition_part0 h rs (c\<lparr>operator := NOT_EQUALS\<rparr>) = Inr False)"
  by (simp add: evaluateCondition_defs split: option.split)

text \<open>A condition on a question without a response is false, whatever its operator, when
  the id of the question is not the name of a member of \<open>Object.prototype\<close>.\<close>

lemma unanswered_question_is_false:
  assumes "rs (questionId c) = None"
    and "\<not> List.member ObjectPrototype_keys (questionId c)"
  shows "evaluateCondition_types h rs c = Inr False
       \<and> evaluateCondition_part0 h rs c = Inr False"
  using assms
  by (simp add: evaluateCondition_defs)

subsection \<open>A changed property, a changed element, and the parse\<close>

lemma get_prop_update_other:
  "k' \<noteq> k \<Longrightarrow> get_prop (VObj a (AList.update k y kvs)) k' = get_prop (VObj a kvs) k'"
  by (simp add: get_prop_def update_conv')

lemma get_prop_update_same:
  "get_prop (VObj a (AList.update k y kvs)) k = y"
  by (simp add: get_prop_def update_conv')

text \<open>An object schema cannot tell a changed property from the old one when the schemas
  it has for that key cannot.\<close>

lemma v_is_object_upd_prop:
  assumes "\<And>s. (k, s) \<in> set es \<Longrightarrow> v_is s (f (get_prop v k)) = v_is s (get_prop v k)"
  shows "v_is (v_object es) (upd_prop k f v) = v_is (v_object es) v"
proof (cases v)
  case (VObj a kvs)
  show ?thesis
  proof (cases "map_of kvs k")
    case None
    with VObj show ?thesis by (simp add: upd_prop_def)
  next
    case (Some x)
    have gx: "get_prop v k = x"
      using VObj Some by (simp add: get_prop_def)
    have "v_is (snd e) (get_prop (VObj a (AList.update k (f x) kvs)) (fst e))
        = v_is (snd e) (get_prop v (fst e))" if "e \<in> set es" for e
    proof (cases "fst e = k")
      case True
      then have "(k, snd e) \<in> set es"
        using that by (metis prod.collapse)
      from assms [OF this] show ?thesis
        using True gx by (simp add: get_prop_update_same)
    next
      case False
      then show ?thesis
        using VObj by (simp add: get_prop_update_other)
    qed
    then have "list_all (\<lambda>e. v_is (snd e) (get_prop (VObj a (AList.update k (f x) kvs)) (fst e))) es
             = list_all (\<lambda>e. v_is (snd e) (get_prop v (fst e))) es"
      by (simp add: list_all_iff)
    then show ?thesis
      using VObj Some by (simp add: upd_prop_def is_object_def)
  qed
qed (simp_all add: upd_prop_def)

lemma v_is_array_upd_index:
  assumes "\<And>a xs. v = VArr a xs \<Longrightarrow> i < length xs \<Longrightarrow> v_is s (f (xs ! i)) = v_is s (xs ! i)"
  shows "v_is (v_array s) (upd_index i f v) = v_is (v_array s) v"
proof (cases v)
  case (VArr a xs)
  show ?thesis
  proof (cases "i < length xs")
    case True
    have "v_is s (xs[i := f (xs ! i)] ! n) = v_is s (xs ! n)" if "n < length xs" for n
      using assms [OF VArr True] that by (cases "n = i") simp_all
    then have "list_all (v_is s) (xs[i := f (xs ! i)]) = list_all (v_is s) xs"
      by (simp add: list_all_length)
    then show ?thesis
      using VArr True by (simp add: upd_index_def)
  next
    case False
    then show ?thesis
      using VArr by (simp add: upd_index_def)
  qed
qed (simp_all add: upd_index_def)

text \<open>The same two facts for the issues that the parse raises.\<close>

lemma v_issues_object_upd_prop:
  assumes "\<And>s. (k, s) \<in> set es \<Longrightarrow> v_issues s (f (get_prop v k)) = v_issues s (get_prop v k)"
  shows "v_issues (v_object es) (upd_prop k f v) = v_issues (v_object es) v"
proof (cases v)
  case (VObj a kvs)
  show ?thesis
  proof (cases "map_of kvs k")
    case None
    with VObj show ?thesis by (simp add: upd_prop_def)
  next
    case (Some x)
    have gx: "get_prop v k = x"
      using VObj Some by (simp add: get_prop_def)
    have "v_issues (snd e) (get_prop (VObj a (AList.update k (f x) kvs)) (fst e))
        = v_issues (snd e) (get_prop (VObj a kvs) (fst e))" if "e \<in> set es" for e
    proof (cases "fst e = k")
      case True
      then have "(k, snd e) \<in> set es"
        using that by (metis prod.collapse)
      from assms [OF this] show ?thesis
        using True gx VObj by (simp add: get_prop_update_same)
    next
      case False
      then show ?thesis
        by (simp add: get_prop_update_other)
    qed
    then have meq:
      "map (\<lambda>e. v_issues (snd e) (get_prop (VObj a (AList.update k (f x) kvs)) (fst e))) es
       = map (\<lambda>e. v_issues (snd e) (get_prop (VObj a kvs) (fst e))) es"
      by (intro map_cong refl)
    show ?thesis
      using VObj Some by (simp add: upd_prop_def is_object_def meq)
  qed
qed (simp_all add: upd_prop_def)

lemma v_issues_array_upd_index:
  assumes "\<And>a xs. v = VArr a xs \<Longrightarrow> i < length xs \<Longrightarrow>
             v_issues s (f (xs ! i)) = v_issues s (xs ! i)"
  shows "v_issues (v_array s) (upd_index i f v) = v_issues (v_array s) v"
proof (cases v)
  case (VArr a xs)
  show ?thesis
  proof (cases "i < length xs")
    case True
    have "map (v_issues s) (xs[i := f (xs ! i)]) = map (v_issues s) xs"
      using assms [OF VArr True] True by (simp add: map_update list_update_same_conv)
    then show ?thesis
      using VArr True by (simp add: upd_index_def)
  next
    case False
    then show ?thesis
      using VArr by (simp add: upd_index_def)
  qed
qed (simp_all add: upd_index_def)

text \<open>The three levels of \<open>redirect\<close>: transition, node, quiz.\<close>

lemma v_is_transition_retarget:
  assumes "is_string (get_prop t ''nextNodeId'')"
  shows "v_is (TransitionSchema C) (upd_prop ''nextNodeId'' (\<lambda>_. VStr target) t)
       = v_is (TransitionSchema C) t"
  unfolding TransitionSchema_def
  by (rule v_is_object_upd_prop) (use assms in \<open>auto simp add: is_string_def\<close>)

lemma v_is_node_retarget:
  assumes "is_string (get_prop (get_index (get_prop n ''transitions'') j) ''nextNodeId'')"
  shows "v_is (NodeSchema Q (TransitionSchema C))
           (upd_prop ''transitions'' (upd_index j (upd_prop ''nextNodeId'' (\<lambda>_. VStr target))) n)
       = v_is (NodeSchema Q (TransitionSchema C)) n"
  unfolding NodeSchema_def
proof (rule v_is_object_upd_prop)
  fix s assume "(''transitions'', s) \<in> set
     [(''id'', v_string), (''title'', v_string), (''description'', v_optional v_string None),
      (''questions'', v_array Q), (''transitions'', v_array (TransitionSchema C)),
      (''isStart'', v_optional v_boolean None), (''isEnd'', v_optional v_boolean None),
      (''metadata'', v_optional (v_record v_string v_unknown) None)]"
  then have s: "s = v_array (TransitionSchema C)"
    by simp
  show "v_is s (upd_index j (upd_prop ''nextNodeId'' (\<lambda>_. VStr target)) (get_prop n ''transitions''))
      = v_is s (get_prop n ''transitions'')"
    unfolding s
  proof (rule v_is_array_upd_index)
    fix a xs assume "get_prop n ''transitions'' = VArr a xs" and "j < length xs"
    with assms have "is_string (get_prop (xs ! j) ''nextNodeId'')"
      by (simp add: get_index_def)
    then show "v_is (TransitionSchema C) (upd_prop ''nextNodeId'' (\<lambda>_. VStr target) (xs ! j))
             = v_is (TransitionSchema C) (xs ! j)"
      by (rule v_is_transition_retarget)
  qed
qed

lemma v_is_quiz_redirect:
  assumes "is_string (nextNodeId_at q i j)"
  shows "v_is (QuizSchema (NodeSchema Q (TransitionSchema C))) (redirect i j target q)
       = v_is (QuizSchema (NodeSchema Q (TransitionSchema C))) q"
  unfolding QuizSchema_def redirect_def
proof (rule v_is_object_upd_prop)
  fix s assume "(''nodes'', s) \<in> set
     [(''id'', v_string), (''title'', v_string), (''description'', v_optional v_string None),
      (''version'', v_string), (''nodes'', v_array (NodeSchema Q (TransitionSchema C))),
      (''settings'', v_optional (v_object
         [(''allowBackTracking'', v_optional v_boolean None),
          (''showProgressBar'', v_optional v_boolean None),
          (''shuffleQuestions'', v_optional v_boolean None),
          (''theme'', v_optional v_string None),
          (''timeLimit'', v_optional v_number None)]) None),
      (''metadata'', v_optional (v_record v_string v_unknown) None)]"
  then have s: "s = v_array (NodeSchema Q (TransitionSchema C))"
    by simp
  show "v_is s (upd_index i (upd_prop ''transitions''
                  (upd_index j (upd_prop ''nextNodeId'' (\<lambda>_. VStr target)))) (get_prop q ''nodes''))
      = v_is s (get_prop q ''nodes'')"
    unfolding s
  proof (rule v_is_array_upd_index)
    fix a xs assume "get_prop q ''nodes'' = VArr a xs" and "i < length xs"
    with assms
    have "is_string (get_prop (get_index (get_prop (xs ! i) ''transitions'') j) ''nextNodeId'')"
      by (simp add: nextNodeId_at_def get_index_def)
    then show "v_is (NodeSchema Q (TransitionSchema C))
            (upd_prop ''transitions'' (upd_index j (upd_prop ''nextNodeId'' (\<lambda>_. VStr target))) (xs ! i))
          = v_is (NodeSchema Q (TransitionSchema C)) (xs ! i)"
      by (rule v_is_node_retarget)
  qed
qed

text \<open>The same for the issues.\<close>

lemma v_issues_transition_retarget:
  assumes "is_string (get_prop t ''nextNodeId'')"
  shows "v_issues (TransitionSchema C) (upd_prop ''nextNodeId'' (\<lambda>_. VStr target) t)
       = v_issues (TransitionSchema C) t"
  unfolding TransitionSchema_def
  by (rule v_issues_object_upd_prop) (use assms in \<open>auto simp add: is_string_def\<close>)

lemma v_issues_node_retarget:
  assumes "is_string (get_prop (get_index (get_prop n ''transitions'') j) ''nextNodeId'')"
  shows "v_issues (NodeSchema Q (TransitionSchema C))
           (upd_prop ''transitions'' (upd_index j (upd_prop ''nextNodeId'' (\<lambda>_. VStr target))) n)
       = v_issues (NodeSchema Q (TransitionSchema C)) n"
  unfolding NodeSchema_def
proof (rule v_issues_object_upd_prop)
  fix s assume "(''transitions'', s) \<in> set
     [(''id'', v_string), (''title'', v_string), (''description'', v_optional v_string None),
      (''questions'', v_array Q), (''transitions'', v_array (TransitionSchema C)),
      (''isStart'', v_optional v_boolean None), (''isEnd'', v_optional v_boolean None),
      (''metadata'', v_optional (v_record v_string v_unknown) None)]"
  then have s: "s = v_array (TransitionSchema C)"
    by simp
  show "v_issues s (upd_index j (upd_prop ''nextNodeId'' (\<lambda>_. VStr target)) (get_prop n ''transitions''))
      = v_issues s (get_prop n ''transitions'')"
    unfolding s
  proof (rule v_issues_array_upd_index)
    fix a xs assume "get_prop n ''transitions'' = VArr a xs" and "j < length xs"
    with assms have "is_string (get_prop (xs ! j) ''nextNodeId'')"
      by (simp add: get_index_def)
    then show "v_issues (TransitionSchema C) (upd_prop ''nextNodeId'' (\<lambda>_. VStr target) (xs ! j))
             = v_issues (TransitionSchema C) (xs ! j)"
      by (rule v_issues_transition_retarget)
  qed
qed

lemma v_issues_quiz_redirect:
  assumes "is_string (nextNodeId_at q i j)"
  shows "v_issues (QuizSchema (NodeSchema Q (TransitionSchema C))) (redirect i j target q)
       = v_issues (QuizSchema (NodeSchema Q (TransitionSchema C))) q"
  unfolding QuizSchema_def redirect_def
proof (rule v_issues_object_upd_prop)
  fix s assume "(''nodes'', s) \<in> set
     [(''id'', v_string), (''title'', v_string), (''description'', v_optional v_string None),
      (''version'', v_string), (''nodes'', v_array (NodeSchema Q (TransitionSchema C))),
      (''settings'', v_optional (v_object
         [(''allowBackTracking'', v_optional v_boolean None),
          (''showProgressBar'', v_optional v_boolean None),
          (''shuffleQuestions'', v_optional v_boolean None),
          (''theme'', v_optional v_string None),
          (''timeLimit'', v_optional v_number None)]) None),
      (''metadata'', v_optional (v_record v_string v_unknown) None)]"
  then have s: "s = v_array (NodeSchema Q (TransitionSchema C))"
    by simp
  show "v_issues s (upd_index i (upd_prop ''transitions''
                  (upd_index j (upd_prop ''nextNodeId'' (\<lambda>_. VStr target)))) (get_prop q ''nodes''))
      = v_issues s (get_prop q ''nodes'')"
    unfolding s
  proof (rule v_issues_array_upd_index)
    fix a xs assume "get_prop q ''nodes'' = VArr a xs" and "i < length xs"
    with assms
    have "is_string (get_prop (get_index (get_prop (xs ! i) ''transitions'') j) ''nextNodeId'')"
      by (simp add: nextNodeId_at_def get_index_def)
    then show "v_issues (NodeSchema Q (TransitionSchema C))
            (upd_prop ''transitions'' (upd_index j (upd_prop ''nextNodeId'' (\<lambda>_. VStr target))) (xs ! i))
          = v_issues (NodeSchema Q (TransitionSchema C)) (xs ! i)"
      by (rule v_issues_node_retarget)
  qed
qed

text \<open>So the parse of the redirected quiz has the outcome of the parse of the quiz, the
  error included.\<close>

lemma v_parse_quiz_redirect:
  assumes "is_string (nextNodeId_at q i j)"
  shows "v_parse (QuizSchema (NodeSchema Q (TransitionSchema C))) (redirect i j target q)
       = v_parse (QuizSchema (NodeSchema Q (TransitionSchema C))) q"
  using assms by (simp add: v_parse_def v_is_quiz_redirect v_issues_quiz_redirect)

text \<open>The parse raises no issue exactly when it finds none.\<close>

lemma v_issues_empty_iff: "v_issues s x = [] \<longleftrightarrow> v_is s x"
proof (induction s x rule: v_is.induct)
  case (8 item x)
  then show ?case
    by (cases x) (auto simp add: list_all_iff)
next
  case (9 options x)
  then show ?case
    by (cases options) (auto simp add: list_ex_iff split: list.split)
next
  case (11 entries x)
  then show ?case
    by (auto simp add: list_all_iff)
next
  case (12 key val x)
  then show ?case
    by (auto simp add: list_all_iff)
qed (auto split: option.split)

section \<open>Properties of \<open>validateQuiz\<close>\<close>

text \<open>A quiz that the parse takes is accepted, whatever the host.\<close>

lemma validateQuiz_accepts:
  "v_is QuizSchema_types quiz \<Longrightarrow> validateQuiz_types h quiz = Inr True"
  "v_is QuizSchema_part0 quiz \<Longrightarrow> validateQuiz_part0 h quiz = Inr True"
  by (simp_all add: validateQuiz_types_def validateQuiz_part0_def v_parse_def)

text \<open>
  C1. \<open>validateQuiz\<close> checks a quiz against \<open>QuizSchema\<close> and nothing else: of a
  \<open>nextNodeId\<close> it asks that it is a string, not that a node with that id exists. So
  when \<open>quiz.nodes[i].transitions[j].nextNodeId\<close> is a string, the quiz gets the same
  verdict whatever string is put in its place: a quiz with a dangling reference is
  accepted exactly when the same quiz with the reference corrected is. Both revisions,
  every host.
\<close>

theorem validateQuiz_ignores_nextNodeId_target:
  assumes "is_string (nextNodeId_at quiz i j)"
  shows "validateQuiz_types h (redirect i j target quiz) = validateQuiz_types h quiz
       \<and> validateQuiz_part0 h (redirect i j target quiz) = validateQuiz_part0 h quiz"
  using assms
  by (simp add: validateQuiz_types_def validateQuiz_part0_def
      QuizSchema_types_def QuizSchema_part0_def v_parse_quiz_redirect)

text \<open>An instance: the example quiz with the transition of \<open>B\<close> pointing to \<open>Z\<close>,
  and the same quiz with the transition pointing to the node \<open>C\<close>.\<close>

theorem validateQuiz_ignores_nextNodeId_target_witness:
  "is_string (nextNodeId_at (quiz_to ''Z'') 1 0)
   \<and> redirect 1 0 ''C'' (quiz_to ''Z'') = quiz_to ''C''
   \<and> validateQuiz_types host0 (quiz_to ''C'') = validateQuiz_types host0 (quiz_to ''Z'')
   \<and> validateQuiz_part0 host0 (quiz_to ''C'') = validateQuiz_part0 host0 (quiz_to ''Z'')"
proof -
  have a: "is_string (nextNodeId_at (quiz_to ''Z'') 1 0)"
    by code_simp
  have b: "redirect 1 0 ''C'' (quiz_to ''Z'') = quiz_to ''C''"
    by code_simp
  show ?thesis
    using validateQuiz_ignores_nextNodeId_target
      [OF a, where target = "''C''" and h = host0] a b
    by simp
qed

text \<open>A dangling reference is not rejected: the example quiz whose node \<open>B\<close> points
  to \<open>Z\<close> has the nodes \<open>A\<close>, \<open>B\<close> and \<open>C\<close> only, and both revisions accept it.\<close>

theorem dangling_nextNodeId_accepted_counterexample:
  "nextNodeId_at (quiz_to ''Z'') 1 0 = VStr ''Z''
   \<and> VStr ''Z'' \<notin> set (nodeIds (quiz_to ''Z''))
   \<and> validateQuiz_types node_host (quiz_to ''Z'') = Inr True
   \<and> validateQuiz_part0 node_host (quiz_to ''Z'') = Inr True"
proof -
  have "nextNodeId_at (quiz_to ''Z'') 1 0 = VStr ''Z''"
    by code_simp
  moreover have "VStr ''Z'' \<notin> set (nodeIds (quiz_to ''Z''))"
    by code_simp
  moreover have "v_is QuizSchema_types (quiz_to ''Z'')"
    by code_simp
  moreover have "v_is QuizSchema_part0 (quiz_to ''Z'')"
    by code_simp
  ultimately show ?thesis
    by (simp add: validateQuiz_accepts)
qed

text \<open>
  C10. \<open>validateQuiz\<close> catches what the parse throws: on every input on which the
  \<open>console.error\<close> call of its catch clause returns, it returns a boolean, true when the
  quiz conforms to \<open>QuizSchema\<close> and false when it does not. A quiz that conforms never
  reaches the call. Both revisions, every host.
\<close>

theorem validateQuiz_total_when_console_returns:
  assumes "ConsoleError h ''Quiz validation failed:''
             (ValiError (v_issues QuizSchema_types quiz)) = Inr ()"
    and "ConsoleError h ''Quiz validation failed:''
             (ValiError (v_issues QuizSchema_part0 quiz)) = Inr ()"
  shows "validateQuiz_types h quiz = Inr (v_is QuizSchema_types quiz)
       \<and> validateQuiz_part0 h quiz = Inr (v_is QuizSchema_part0 quiz)"
  using assms
  by (simp add: validateQuiz_types_def validateQuiz_part0_def v_parse_def)

text \<open>An instance: the example quiz with a number in the place of its version, on the
  console of Node.\<close>

theorem validateQuiz_total_when_console_returns_witness:
  "ConsoleError node_host ''Quiz validation failed:''
     (ValiError (v_issues QuizSchema_types
        (upd_prop ''version'' (\<lambda>_. VNum (Fin 1)) (quiz_to ''C'')))) = Inr ()
   \<and> ConsoleError node_host ''Quiz validation failed:''
     (ValiError (v_issues QuizSchema_part0
        (upd_prop ''version'' (\<lambda>_. VNum (Fin 1)) (quiz_to ''C'')))) = Inr ()
   \<and> validateQuiz_types node_host (upd_prop ''version'' (\<lambda>_. VNum (Fin 1)) (quiz_to ''C''))
       = Inr False
   \<and> validateQuiz_part0 node_host (upd_prop ''version'' (\<lambda>_. VNum (Fin 1)) (quiz_to ''C''))
       = Inr False"
proof -
  have a: "ConsoleError node_host ''Quiz validation failed:''
     (ValiError (v_issues QuizSchema_types
        (upd_prop ''version'' (\<lambda>_. VNum (Fin 1)) (quiz_to ''C'')))) = Inr ()"
    by code_simp
  have b: "ConsoleError node_host ''Quiz validation failed:''
     (ValiError (v_issues QuizSchema_part0
        (upd_prop ''version'' (\<lambda>_. VNum (Fin 1)) (quiz_to ''C'')))) = Inr ()"
    by code_simp
  have c: "\<not> v_is QuizSchema_types (upd_prop ''version'' (\<lambda>_. VNum (Fin 1)) (quiz_to ''C''))"
    by code_simp
  have d: "\<not> v_is QuizSchema_part0 (upd_prop ''version'' (\<lambda>_. VNum (Fin 1)) (quiz_to ''C''))"
    by code_simp
  show ?thesis
    using validateQuiz_total_when_console_returns [OF a b] a b c d by simp
qed

text \<open>
  An exception of the \<open>console.error\<close> call is not caught. The example quiz with, in
  the place of its title, an object whose inspect hook throws does not conform; the one
  issue is about that object, the console of Node calls the hook to print it, and
  \<open>validateQuiz\<close> throws what the hook throws.
\<close>

theorem validateQuiz_throws_counterexample:
  "v_issues QuizSchema_types (upd_prop ''title'' (\<lambda>_. VHooked 99) (quiz_to ''C''))
     = [VHooked 99]
   \<and> validateQuiz_types node_host (upd_prop ''title'' (\<lambda>_. VHooked 99) (quiz_to ''C''))
       = Inl HookError
   \<and> validateQuiz_part0 node_host (upd_prop ''title'' (\<lambda>_. VHooked 99) (quiz_to ''C''))
       = Inl HookError"
  by code_simp

section \<open>Properties of \<open>evaluateTransition\<close>\<close>

text \<open>
  C2. A transition with an empty condition list evaluates to true unless its
  \<open>combinationType\<close> is \<open>OR\<close>; with \<open>OR\<close> it evaluates to false, since \<open>some\<close> on an
  empty array is false. Both revisions.
\<close>

theorem empty_conditions_fire_unless_OR:
  assumes "conditions t = []"
  shows "evaluateTransition_types h t rs = Inr (combinationType t \<noteq> Some OR)
       \<and> evaluateTransition_part0 h t rs = Inr (combinationType t \<noteq> Some OR)"
  using assms by (simp add: evaluateTransition_defs)

text \<open>An instance with \<open>AND\<close>.\<close>

theorem empty_conditions_fire_unless_OR_witness:
  "conditions (no_conditions (Some AND)) = []
   \<and> evaluateTransition_types host0 (no_conditions (Some AND)) Map.empty = Inr True
   \<and> evaluateTransition_part0 host0 (no_conditions (Some AND)) Map.empty = Inr True"
  using empty_conditions_fire_unless_OR
    [where t = "no_conditions (Some AND)" and h = host0 and rs = Map.empty]
  by (simp add: no_conditions_def)

text \<open>With \<open>OR\<close>, a transition without conditions does not fire.\<close>

theorem empty_conditions_OR_counterexample:
  "conditions (no_conditions (Some OR)) = []
   \<and> evaluateTransition_types host0 (no_conditions (Some OR)) Map.empty = Inr False
   \<and> evaluateTransition_part0 host0 (no_conditions (Some OR)) Map.empty = Inr False"
  by (simp add: evaluateTransition_defs no_conditions_def)

text \<open>
  C3. For a BETWEEN condition with a number \<open>lo\<close> as value and no
  \<open>additionalValue\<close>, and a number \<open>x\<close> as response with \<open>x > lo\<close>: the revision of
  types.ts evaluates the condition to true unless \<open>x\<close> is positive infinity (the default
  upper bound is exclusive as well), and the revision of part_000 evaluates it to false.
\<close>

theorem between_without_upper_bound:
  assumes "operator c = BETWEEN" and "cond_value c = VNum lo"
    and "additionalValue c = VUndefined"
    and "rs (questionId c) = Some r" and "resp_value r = VNum x"
    and "js_greater x lo"
  shows "evaluateCondition_types h rs c = Inr (x \<noteq> PosInf)
       \<and> evaluateCondition_part0 h rs c = Inr False"
  using assms js_less_not_NaN [of lo x]
  by (simp add: evaluateCondition_defs js_greater_def
      is_nullish_def js_less_PosInf)

text \<open>An instance: the response 20 against the lower bound 18.\<close>

theorem between_without_upper_bound_witness:
  "operator (cond ''age'' BETWEEN (VNum (Fin 18)) VUndefined) = BETWEEN
   \<and> js_greater (Fin 20) (Fin 18)
   \<and> evaluateCondition_types host0 [''age'' \<mapsto> answer ''age'' (VNum (Fin 20))]
        (cond ''age'' BETWEEN (VNum (Fin 18)) VUndefined) = Inr True
   \<and> evaluateCondition_part0 host0 [''age'' \<mapsto> answer ''age'' (VNum (Fin 20))]
        (cond ''age'' BETWEEN (VNum (Fin 18)) VUndefined) = Inr False"
  using between_without_upper_bound
    [where c = "cond ''age'' BETWEEN (VNum (Fin 18)) VUndefined" and lo = "Fin 18"
       and rs = "[''age'' \<mapsto> answer ''age'' (VNum (Fin 20))]"
       and r = "answer ''age'' (VNum (Fin 20))" and x = "Fin 20" and h = host0]
  by (simp add: cond_def answer_def js_greater_def)

text \<open>The response positive infinity is a number greater than the lower bound 0, and
  the revision of types.ts evaluates the condition to false.\<close>

theorem between_infinite_response_counterexample:
  "js_greater PosInf (Fin 0)
   \<and> evaluateCondition_types host0 [''q'' \<mapsto> answer ''q'' (VNum PosInf)]
        (cond ''q'' BETWEEN (VNum (Fin 0)) VUndefined) = Inr False"
  by (simp add: evaluateCondition_defs js_greater_def answer_def cond_def is_nullish_def)

text \<open>
  C4. With a response present, GREATER_THAN and LESS_THAN in the revision of
  part_000 compare the time values of the two dates when the response value and the
  condition value are both dates, and the numbers that \<open>Number\<close> makes of the two values
  otherwise. In the revision of types.ts they are false unless the response value has
  type number; then the response is compared with the condition value converted to a
  number. Dates are not treated apart there.
\<close>

theorem ordering_operators:
  assumes "rs (questionId c) = Some r"
  shows "(operator c = GREATER_THAN \<longrightarrow>
            (\<forall>a t b u. resp_value r = VDate a t \<and> cond_value c = VDate b u \<longrightarrow>
               evaluateCondition_part0 h rs c = Inr (js_greater t u))
          \<and> (\<not> (is_Date (resp_value r) \<and> is_Date (cond_value c)) \<longrightarrow>
               evaluateCondition_part0 h rs c =
                 Inr (js_greater (ToNumber h (resp_value r)) (ToNumber h (cond_value c))))
          \<and> evaluateCondition_types h rs c =
               Inr (is_number (resp_value r)
                    \<and> js_greater (ToNumber h (resp_value r)) (ToNumber h (cond_value c))))
       \<and> (operator c = LESS_THAN \<longrightarrow>
            (\<forall>a t b u. resp_value r = VDate a t \<and> cond_value c = VDate b u \<longrightarrow>
               evaluateCondition_part0 h rs c = Inr (js_less t u))
          \<and> (\<not> (is_Date (resp_value r) \<and> is_Date (cond_value c)) \<longrightarrow>
               evaluateCondition_part0 h rs c =
                 Inr (js_less (ToNumber h (resp_value r)) (ToNumber h (cond_value c))))
          \<and> evaluateCondition_types h rs c =
               Inr (is_number (resp_value r)
                    \<and> js_less (ToNumber h (resp_value r)) (ToNumber h (cond_value c))))"
proof -
  have types_gt: "evaluateCondition_types h rs c =
      Inr (is_number (resp_value r)
           \<and> js_greater (ToNumber h (resp_value r)) (ToNumber h (cond_value c)))"
    if "operator c = GREATER_THAN"
    using assms that
    by (cases "resp_value r") (simp_all add: evaluateCondition_defs is_number_def)
  have types_lt: "evaluateCondition_types h rs c =
      Inr (is_number (resp_value r)
           \<and> js_less (ToNumber h (resp_value r)) (ToNumber h (cond_value c)))"
    if "operator c = LESS_THAN"
    using assms that
    by (cases "resp_value r") (simp_all add: evaluateCondition_defs is_number_def)
  have part0_gt: "evaluateCondition_part0 h rs c =
      Inr (js_greater (ToNumber h (resp_value r)) (ToNumber h (cond_value c)))"
    if "operator c = GREATER_THAN" and "\<not> (is_Date (resp_value r) \<and> is_Date (cond_value c))"
    using assms that
    by (cases "resp_value r"; cases "cond_value c")
       (simp_all add: evaluateCondition_defs is_Date_def)
  have part0_lt: "evaluateCondition_part0 h rs c =
      Inr (js_less (ToNumber h (resp_value r)) (ToNumber h (cond_value c)))"
    if "operator c = LESS_THAN" and "\<not> (is_Date (resp_value r) \<and> is_Date (cond_value c))"
    using assms that
    by (cases "resp_value r"; cases "cond_value c")
       (simp_all add: evaluateCondition_defs is_Date_def)
  have dates:
    "(operator c = GREATER_THAN \<longrightarrow> evaluateCondition_part0 h rs c = Inr (js_greater t u))
     \<and> (operator c = LESS_THAN \<longrightarrow> evaluateCondition_part0 h rs c = Inr (js_less t u))"
    if "resp_value r = VDate a t" and "cond_value c = VDate b u" for a t b u
    using assms that by (simp add: evaluateCondition_defs)
  show ?thesis
    using types_gt types_lt part0_gt part0_lt dates by blast
qed

text \<open>An instance: a response date after the date of the condition.\<close>

theorem ordering_operators_witness:
  "[''q'' \<mapsto> answer ''q'' (VDate 1 (Fin 2000))]
      (questionId (cond ''q'' GREATER_THAN (VDate 2 (Fin 1000)) VUndefined))
      = Some (answer ''q'' (VDate 1 (Fin 2000)))
   \<and> evaluateCondition_part0 host0 [''q'' \<mapsto> answer ''q'' (VDate 1 (Fin 2000))]
        (cond ''q'' GREATER_THAN (VDate 2 (Fin 1000)) VUndefined) = Inr True
   \<and> evaluateCondition_types host0 [''q'' \<mapsto> answer ''q'' (VDate 1 (Fin 2000))]
        (cond ''q'' GREATER_THAN (VDate 2 (Fin 1000)) VUndefined) = Inr False"
  using ordering_operators
    [where rs = "[''q'' \<mapsto> answer ''q'' (VDate 1 (Fin 2000))]"
       and c = "cond ''q'' GREATER_THAN (VDate 2 (Fin 1000)) VUndefined"
       and r = "answer ''q'' (VDate 1 (Fin 2000))" and h = host0]
  by (simp add: cond_def answer_def js_greater_def is_number_def)

text \<open>In the revision of types.ts a response date after the date of the condition is
  not greater than it, and a response date whose time value exceeds the number of the
  condition is not greater than it either, while the revision of part_000 finds it
  greater.\<close>

theorem ordering_types_counterexample:
  "js_greater (Fin 2000) (Fin 1000)
   \<and> evaluateCondition_types host0 [''q'' \<mapsto> answer ''q'' (VDate 1 (Fin 2000))]
        (cond ''q'' GREATER_THAN (VDate 2 (Fin 1000)) VUndefined) = Inr False
   \<and> js_greater (ToNumber host0 (VDate 1 (Fin 2000))) (ToNumber host0 (VNum (Fin 1000)))
   \<and> evaluateCondition_types host0 [''q'' \<mapsto> answer ''q'' (VDate 1 (Fin 2000))]
        (cond ''q'' GREATER_THAN (VNum (Fin 1000)) VUndefined) = Inr False
   \<and> evaluateCondition_part0 host0 [''q'' \<mapsto> answer ''q'' (VDate 1 (Fin 2000))]
        (cond ''q'' GREATER_THAN (VNum (Fin 1000)) VUndefined) = Inr True"
  by (simp add: evaluateCondition_defs js_greater_def
      answer_def cond_def)

text \<open>
  C5. With a response present, EQUALS in the revision of part_000 compares
  the time values when the response value and the condition value are both dates, and is
  \<open>===\<close> otherwise; in the revision of types.ts it is \<open>===\<close> throughout, dates included.
  \<open>===\<close> is equality of the values for strings, booleans and numbers other than NaN; two
  arrays are \<open>===\<close> only when they are the same array, whatever they contain.
\<close>

theorem equals_by_kind:
  assumes "operator c = EQUALS" and "rs (questionId c) = Some r"
  shows "(\<forall>a t b u. resp_value r = VDate a t \<and> cond_value c = VDate b u \<longrightarrow>
            evaluateCondition_part0 h rs c = Inr (num_equals t u))
       \<and> (\<not> (is_Date (resp_value r) \<and> is_Date (cond_value c)) \<longrightarrow>
            evaluateCondition_part0 h rs c = Inr (strict_equals (resp_value r) (cond_value c)))
       \<and> evaluateCondition_types h rs c = Inr (strict_equals (resp_value r) (cond_value c))
       \<and> (\<forall>s s'. strict_equals (VStr s) (VStr s') = (s = s'))
       \<and> (\<forall>b b'. strict_equals (VBool b) (VBool b') = (b = b'))
       \<and> (\<forall>x y. strict_equals (VNum x) (VNum y) = (x = y \<and> x \<noteq> NaN))
       \<and> (\<forall>a xs b ys. strict_equals (VArr a xs) (VArr b ys) = (a = b))"
proof -
  have "evaluateCondition_part0 h rs c = Inr (strict_equals (resp_value r) (cond_value c))"
    if "\<not> (is_Date (resp_value r) \<and> is_Date (cond_value c))"
    using assms that
    by (cases "resp_value r"; cases "cond_value c")
       (simp_all add: evaluateCondition_defs compareValues_def is_Date_def)
  moreover have "evaluateCondition_part0 h rs c = Inr (num_equals t u)"
    if "resp_value r = VDate a t" and "cond_value c = VDate b u" for a t b u
    using assms that by (simp add: evaluateCondition_defs compareValues_def)
  moreover have "evaluateCondition_types h rs c =
      Inr (strict_equals (resp_value r) (cond_value c))"
    using assms by (simp add: evaluateCondition_defs)
  moreover have "strict_equals (VNum x) (VNum y) = (x = y \<and> x \<noteq> NaN)" for x y
    by (auto simp add: num_equals_def)
  ultimately show ?thesis
    by simp
qed

text \<open>An instance: two date objects with the same time value.\<close>

theorem equals_by_kind_witness:
  "operator (cond ''q'' EQUALS (VDate 2 (Fin 1000)) VUndefined) = EQUALS
   \<and> [''q'' \<mapsto> answer ''q'' (VDate 1 (Fin 1000))]
        (questionId (cond ''q'' EQUALS (VDate 2 (Fin 1000)) VUndefined))
        = Some (answer ''q'' (VDate 1 (Fin 1000)))
   \<and> evaluateCondition_part0 host0 [''q'' \<mapsto> answer ''q'' (VDate 1 (Fin 1000))]
        (cond ''q'' EQUALS (VDate 2 (Fin 1000)) VUndefined) = Inr True
   \<and> evaluateCondition_types host0 [''q'' \<mapsto> answer ''q'' (VDate 1 (Fin 1000))]
        (cond ''q'' EQUALS (VDate 2 (Fin 1000)) VUndefined) = Inr False"
  using equals_by_kind
    [where c = "cond ''q'' EQUALS (VDate 2 (Fin 1000)) VUndefined"
       and rs = "[''q'' \<mapsto> answer ''q'' (VDate 1 (Fin 1000))]"
       and r = "answer ''q'' (VDate 1 (Fin 1000))" and h = host0]
  by (simp add: cond_def answer_def num_equals_def)

text \<open>Two arrays with the same elements are not EQUALS in either revision, and two
  dates with the same time value are not EQUALS in the revision of types.ts.\<close>

theorem equals_arrays_counterexample:
  "evaluateCondition_part0 host0 [''q'' \<mapsto> answer ''q'' (VArr 1 [VStr ''a''])]
        (cond ''q'' EQUALS (VArr 2 [VStr ''a'']) VUndefined) = Inr False
   \<and> evaluateCondition_types host0 [''q'' \<mapsto> answer ''q'' (VArr 1 [VStr ''a''])]
        (cond ''q'' EQUALS (VArr 2 [VStr ''a'']) VUndefined) = Inr False
   \<and> evaluateCondition_types host0 [''q'' \<mapsto> answer ''q'' (VDate 1 (Fin 1000))]
        (cond ''q'' EQUALS (VDate 2 (Fin 1000)) VUndefined) = Inr False"
  by (simp add: evaluateCondition_defs compareValues_def
      answer_def cond_def)

text \<open>
  C6. The claim: when a response exists for the question of a condition, NOT_EQUALS is
  the negation of EQUALS on the same condition, and when none exists both are false. The
  first half holds (\<open>not_equals_negates_equals\<close>). The second half fails when the id
  of the question is the name of a member of \<open>Object.prototype\<close>: without any response,
  the read of the responses object finds the inherited member, the early return is not
  taken, and NOT_EQUALS compares undefined with the condition value. With the id
  \<open>toString\<close> and no responses, EQUALS is false and NOT_EQUALS is true, in both
  revisions.
\<close>

theorem not_equals_true_without_response:
  "Map.empty ''toString'' = (None :: QuestionResponse option)
   \<and> evaluateCondition_types host0 Map.empty (cond ''toString'' EQUALS (VStr ''a'') VUndefined)
       = Inr False
   \<and> evaluateCondition_types host0 Map.empty (cond ''toString'' NOT_EQUALS (VStr ''a'') VUndefined)
       = Inr True
   \<and> evaluateCondition_part0 host0 Map.empty (cond ''toString'' EQUALS (VStr ''a'') VUndefined)
       = Inr False
   \<and> evaluateCondition_part0 host0 Map.empty (cond ''toString'' NOT_EQUALS (VStr ''a'') VUndefined)
       = Inr True"
  by (simp add: evaluateCondition_defs
      ObjectPrototype_keys_def compareValues_def cond_def)

text \<open>
  C7. For a BETWEEN condition with numbers \<open>lo\<close> as value and \<open>hi\<close> as
  \<open>additionalValue\<close>, and a number \<open>x\<close> as response, the condition is true exactly when
  \<open>lo < x\<close> and \<open>x < hi\<close>; it is false when \<open>x\<close> is \<open>lo\<close> and when \<open>x\<close> is \<open>hi\<close>. Both
  revisions.
\<close>

theorem between_strict_both_ends:
  assumes "operator c = BETWEEN" and "cond_value c = VNum lo" and "additionalValue c = VNum hi"
    and "rs (questionId c) = Some r" and "resp_value r = VNum x"
  shows "evaluateCondition_types h rs c = Inr (js_less lo x \<and> js_less x hi)
       \<and> evaluateCondition_part0 h rs c = Inr (js_less lo x \<and> js_less x hi)
       \<and> (x = lo \<or> x = hi \<longrightarrow>
            evaluateCondition_types h rs c = Inr False
          \<and> evaluateCondition_part0 h rs c = Inr False)"
  using assms
  by (auto simp add: evaluateCondition_defs js_greater_def
      is_nullish_def js_less_irrefl)

text \<open>An instance: the response 18 against the bounds 18 and 65.\<close>

theorem between_strict_both_ends_witness:
  "operator (cond ''age'' BETWEEN (VNum (Fin 18)) (VNum (Fin 65))) = BETWEEN
   \<and> evaluateCondition_types host0 [''age'' \<mapsto> answer ''age'' (VNum (Fin 18))]
        (cond ''age'' BETWEEN (VNum (Fin 18)) (VNum (Fin 65))) = Inr False
   \<and> evaluateCondition_part0 host0 [''age'' \<mapsto> answer ''age'' (VNum (Fin 18))]
        (cond ''age'' BETWEEN (VNum (Fin 18)) (VNum (Fin 65))) = Inr False"
  using between_strict_both_ends
    [where c = "cond ''age'' BETWEEN (VNum (Fin 18)) (VNum (Fin 65))" and lo = "Fin 18"
       and hi = "Fin 65" and rs = "[''age'' \<mapsto> answer ''age'' (VNum (Fin 18))]"
       and r = "answer ''age'' (VNum (Fin 18))" and x = "Fin 18" and h = host0]
  by (simp add: cond_def answer_def)

text \<open>
  C8. The claim: whatever the operator, a condition on a question without a response is
  false. It holds for every question id that is not the name of a member of
  \<open>Object.prototype\<close> (\<open>unanswered_question_is_false\<close>). For the id \<open>constructor\<close>
  and an empty responses object, the transition whose one condition is NOT_EQUALS
  evaluates to true, in both revisions.
\<close>

theorem unanswered_inherited_key_fires:
  "Map.empty ''constructor'' = (None :: QuestionResponse option)
   \<and> evaluateTransition_types host0
        \<lparr>conditions = [cond ''constructor'' NOT_EQUALS (VStr ''yes'') VUndefined],
         nextNodeId = ''B'', combinationType = None\<rparr> Map.empty = Inr True
   \<and> evaluateTransition_part0 host0
        \<lparr>conditions = [cond ''constructor'' NOT_EQUALS (VStr ''yes'') VUndefined],
         nextNodeId = ''B'', combinationType = None\<rparr> Map.empty = Inr True"
  by (simp add: evaluateTransition_defs
      evaluateCondition_defs
      ObjectPrototype_keys_def compareValues_def cond_def)

text \<open>
  C9. \<open>evaluateTransition\<close> writes nothing: the call leaves the responses object as it
  found it, and a second call with the same transition on the responses object that the
  first call has left returns what the first call returned, the boolean or the
  exception. Both revisions, every host.
\<close>

theorem evaluateTransition_leaves_responses:
  "snd (run_evaluateTransition_types h t rs) = rs
   \<and> run_evaluateTransition_types h t (snd (run_evaluateTransition_types h t rs))
       = run_evaluateTransition_types h t rs
   \<and> snd (run_evaluateTransition_part0 h t rs) = rs
   \<and> run_evaluateTransition_part0 h t (snd (run_evaluateTransition_part0 h t rs))
       = run_evaluateTransition_part0 h t rs"
  by (simp add: run_evaluateTransition_types_state run_evaluateTransition_part0_state)

text \<open>An instance: the answer 20 to \<open>age\<close>.\<close>

theorem evaluateTransition_leaves_responses_witness:
  "run_evaluateTransition_types host0 age_over_18 [''age'' \<mapsto> answer ''age'' (VNum (Fin 20))]
     = (Inr True, [''age'' \<mapsto> answer ''age'' (VNum (Fin 20))])
   \<and> run_evaluateTransition_part0 host0 age_over_18 [''age'' \<mapsto> answer ''age'' (VNum (Fin 20))]
     = (Inr True, [''age'' \<mapsto> answer ''age'' (VNum (Fin 20))])"
proof -
  have a: "fst (run_evaluateTransition_types host0 age_over_18
             [''age'' \<mapsto> answer ''age'' (VNum (Fin 20))]) = Inr True"
    by (simp add: evaluateTransition_defs evaluateCondition_defs age_over_18_def
        cond_def answer_def js_greater_def)
  have b: "fst (run_evaluateTransition_part0 host0 age_over_18
             [''age'' \<mapsto> answer ''age'' (VNum (Fin 20))]) = Inr True"
    by (simp add: evaluateTransition_defs evaluateCondition_defs age_over_18_def
        cond_def answer_def js_greater_def)
  show ?thesis
    using evaluateTransition_leaves_responses
      [where h = host0 and t = age_over_18
         and rs = "[''age'' \<mapsto> answer ''age'' (VNum (Fin 20))]"] a b
    by (metis prod.collapse)
qed

text \<open>
  Responses with equal contents are not enough for equal results. The answer that is
  the array of the condition and the answer that is a copy of that array have the same
  contents, and the same transition is true on the first and false on the second, in
  both revisions: EQUALS compares two arrays by identity.
\<close>

theorem copied_responses_counterexample:
  "copy_of colours_shared colours_copied
   \<and> evaluateTransition_types host0 same_colours [''colours'' \<mapsto> colours_shared] = Inr True
   \<and> evaluateTransition_types host0 same_colours [''colours'' \<mapsto> colours_copied] = Inr False
   \<and> evaluateTransition_part0 host0 same_colours [''colours'' \<mapsto> colours_shared] = Inr True
   \<and> evaluateTransition_part0 host0 same_colours [''colours'' \<mapsto> colours_copied] = Inr False"
  by (simp add: evaluateTransition_defs evaluateCondition_defs compareValues_def copy_of_def
      same_colours_def colours_shared_def colours_copied_def cond_def answer_def)

end
